theory Spec2Isabelle
  imports Complex_Main "HOL-Library.Multiset"
begin

section \<open>Python values, exceptions and strings\<close>

text \<open>
  The program is a Python script. An exception is a value: a computation that can
  raise has the type \<open>py_error + 'a\<close>, with \<open>Inl\<close> for the exception raised.
  Numbers read from the histogram engine are modelled as exact reals; strings are
  ASCII byte strings.
\<close>

datatype py_error = KeyError | TypeError | AttributeError | IndexError | OSError

fun bind_err :: "py_error + 'a \<Rightarrow> ('a \<Rightarrow> py_error + 'b) \<Rightarrow> py_error + 'b" where
  "bind_err (Inl e) f = Inl e"
| "bind_err (Inr x) f = f x"

text \<open>
  Whatever \<open>yaml.safe_load\<close> can return for a record file, and the values stored in
  the record library's objects. A \<open>PDict\<close> lists its items in order, with distinct keys.
\<close>

datatype pyval =
    PNone
  | PBool bool
  | PInt int
  | PFloat real
  | PStr string
  | PList "pyval list"
  | PDict "(string \<times> pyval) list"

text \<open>\<open>s.startswith(p)\<close>\<close>

fun startswith :: "string \<Rightarrow> string \<Rightarrow> bool" where
  "startswith s [] = True"
| "startswith [] (p # ps) = False"
| "startswith (c # cs) (p # ps) = (c = p \<and> startswith cs ps)"

text \<open>\<open>p in s\<close> for two strings: \<open>p\<close> occurs in \<open>s\<close> as a substring.\<close>

fun str_in :: "string \<Rightarrow> string \<Rightarrow> bool" where
  "str_in p [] = (p = [])"
| "str_in p (c # cs) = (startswith (c # cs) p \<or> str_in p cs)"

text \<open>\<open>s.lower()\<close> on ASCII letters.\<close>

definition lower_char :: "char \<Rightarrow> char" where
  "lower_char c =
     (case map_of (zip ''ABCDEFGHIJKLMNOPQRSTUVWXYZ'' ''abcdefghijklmnopqrstuvwxyz'') c of
        Some l \<Rightarrow> l
      | None \<Rightarrow> c)"

definition lower :: "string \<Rightarrow> string" where
  "lower s = map lower_char s"

text \<open>
  \<open>s.replace(old, new)\<close> for a non-empty \<open>old\<close>: the occurrences are replaced from
  left to right, without overlap.
\<close>

fun replace :: "string \<Rightarrow> string \<Rightarrow> string \<Rightarrow> string" where
  "replace [] old new = []"
| "replace (c # cs) old new =
     (if old \<noteq> [] \<and> startswith (c # cs) old
      then new @ replace (drop (length old - 1) cs) old new
      else c # replace cs old new)"

text \<open>\<open>s.strip()\<close>: ASCII white space removed at both ends.\<close>

definition isspace :: "char \<Rightarrow> bool" where
  "isspace c \<longleftrightarrow>
     c \<in> set [CHR 0x09, CHR 0x0A, CHR 0x0B, CHR 0x0C, CHR 0x0D,
               CHR 0x1C, CHR 0x1D, CHR 0x1E, CHR 0x1F, CHR 0x20]"

definition strip :: "string \<Rightarrow> string" where
  "strip s = rev (dropWhile isspace (rev (dropWhile isspace s)))"

section \<open>The histogram engine's objects\<close>

text \<open>
  A histogram is read through the engine's accessors only; bins are numbered from 1.
  The engine itself is outside the repository, so each accessor is a field.
\<close>

record hist =
  GetName :: string
  GetNbinsX :: nat
  GetBinCenter :: "nat \<Rightarrow> real"
  GetBinLowEdge :: "nat \<Rightarrow> real"
  GetBinWidth :: "nat \<Rightarrow> real"
  GetBinContent :: "nat \<Rightarrow> real"
  GetBinError :: "nat \<Rightarrow> real"
  GetXaxis_GetTitle :: string
  GetYaxis_GetTitle :: string

text \<open>
  An opened container file: whether it is a zombie, and what \<open>Get("c")\<close> gives. A canvas
  is represented by the list of plot objects that \<open>collect_hists_from_canvas\<close> returns
  for it, in its enumeration order.
\<close>

record root_file =
  IsZombie :: bool
  Get_c :: "hist list option"

text \<open>How the run of \<open>convert -version\<close> under \<open>subprocess.run\<close> can end.\<close>

datatype probe_outcome =
    Completed int
  | TimeoutExpired
  | FileNotFoundError
  | SubprocessError
  | PermissionError

text \<open>What a call of the script sees of the outside world.\<close>

record environment =
  TFile_Open :: "string \<Rightarrow> root_file option"
  os_path_exists :: "string \<Rightarrow> bool"
  subprocess_run :: probe_outcome
  add_image_raises :: bool
  yaml_safe_load :: "string \<Rightarrow> py_error + pyval"

section \<open>The record library's objects\<close>

text \<open>
  Uncertainty, Variable, Table and Submission are the record library's classes. They
  are containers: a setter stores, an \<open>add_\<close> method appends.
\<close>

record uncertainty =
  unc_label :: string
  unc_is_symmetric :: bool
  unc_values :: "pyval list"

record qualifier =
  qual_name :: pyval
  qual_value :: pyval
  qual_units :: pyval

record variable =
  var_name :: pyval
  var_is_independent :: bool
  var_is_binned :: bool
  var_units :: pyval
  var_values :: "pyval list"
  var_uncertainties :: "uncertainty list"
  var_qualifiers :: "qualifier list"

record table =
  table_name :: string
  table_description :: string
  table_location :: string
  table_keywords :: "string \<rightharpoonup> string list"
  table_image_files :: "string list"
  table_variables :: "variable list"

type_synonym submission = "table list"

definition Uncertainty :: "string \<Rightarrow> bool \<Rightarrow> uncertainty" where
  "Uncertainty label is_symmetric =
     \<lparr>unc_label = label, unc_is_symmetric = is_symmetric, unc_values = []\<rparr>"

definition Variable :: "pyval \<Rightarrow> bool \<Rightarrow> bool \<Rightarrow> pyval \<Rightarrow> variable" where
  "Variable name is_independent is_binned units =
     \<lparr>var_name = name, var_is_independent = is_independent, var_is_binned = is_binned,
      var_units = units, var_values = [], var_uncertainties = [], var_qualifiers = []\<rparr>"

definition add_uncertainty :: "variable \<Rightarrow> uncertainty \<Rightarrow> variable" where
  "add_uncertainty var unc = var\<lparr>var_uncertainties := var_uncertainties var @ [unc]\<rparr>"

definition add_qualifier :: "variable \<Rightarrow> pyval \<Rightarrow> pyval \<Rightarrow> pyval \<Rightarrow> variable" where
  "add_qualifier var name val units =
     var\<lparr>var_qualifiers := var_qualifiers var @
           [\<lparr>qual_name = name, qual_value = val, qual_units = units\<rparr>]\<rparr>"

definition Table :: "string \<Rightarrow> table" where
  "Table name =
     \<lparr>table_name = name, table_description = [], table_location = [],
      table_keywords = Map.empty, table_image_files = [], table_variables = []\<rparr>"

definition add_variable :: "table \<Rightarrow> variable \<Rightarrow> table" where
  "add_variable tbl var = tbl\<lparr>table_variables := table_variables tbl @ [var]\<rparr>"

definition add_image :: "table \<Rightarrow> string \<Rightarrow> table" where
  "add_image tbl path = tbl\<lparr>table_image_files := table_image_files tbl @ [path]\<rparr>"

definition add_table :: "submission \<Rightarrow> table \<Rightarrow> submission" where
  "add_table submission tbl = submission @ [tbl]"

definition independent_variables :: "table \<Rightarrow> variable list" where
  "independent_variables tbl = filter var_is_independent (table_variables tbl)"

definition dependent_variables :: "table \<Rightarrow> variable list" where
  "dependent_variables tbl = filter (\<lambda>v. \<not> var_is_independent v) (table_variables tbl)"

section \<open>The script\<close>

subsection \<open>check_imagemagick_available\<close>

text \<open>
  The probe returns whether the exit code is 0; a timeout, a missing executable and a
  subprocess error are caught and give False. Any other exception of the call is not
  among the caught classes and leaves the function.
\<close>

fun check_imagemagick_available :: "probe_outcome \<Rightarrow> py_error + bool" where
  "check_imagemagick_available (Completed returncode) = Inr (returncode = 0)"
| "check_imagemagick_available TimeoutExpired = Inr False"
| "check_imagemagick_available FileNotFoundError = Inr False"
| "check_imagemagick_available SubprocessError = Inr False"
| "check_imagemagick_available PermissionError = Inl OSError"

subsection \<open>extract_histogram_data\<close>

record hist_data =
  data_x_centers :: "real list"
  data_x_low :: "real list"
  data_x_high :: "real list"
  data_y_values :: "real list"
  data_y_errors :: "real list"

text \<open>The first loop over \<open>range(1, n_bins + 1)\<close>, with the three lists it appends to.\<close>

fun edges_loop ::
  "hist \<Rightarrow> nat list \<Rightarrow> real list \<times> real list \<times> real list \<Rightarrow> real list \<times> real list \<times> real list"
where
  "edges_loop hist [] acc = acc"
| "edges_loop hist (i # rest) (x_values, x_low, x_high) =
     (let bin_center = GetBinCenter hist i;
          bin_low = GetBinLowEdge hist i;
          bin_high = GetBinLowEdge hist i + GetBinWidth hist i
      in edges_loop hist rest (x_values @ [bin_center], x_low @ [bin_low], x_high @ [bin_high]))"

text \<open>The second loop, over the same range.\<close>

fun contents_loop ::
  "hist \<Rightarrow> nat list \<Rightarrow> real list \<times> real list \<Rightarrow> real list \<times> real list"
where
  "contents_loop hist [] acc = acc"
| "contents_loop hist (i # rest) (y_values, y_errors) =
     (let y_val = GetBinContent hist i;
          y_err = GetBinError hist i
      in contents_loop hist rest (y_values @ [y_val], y_errors @ [y_err]))"

definition extract_histogram_data :: "hist \<Rightarrow> hist_data" where
  "extract_histogram_data hist =
     (let n_bins = GetNbinsX hist;
          (x_values, x_low, x_high) = edges_loop hist [1..<n_bins + 1] ([], [], []);
          (y_values, y_errors) = contents_loop hist [1..<n_bins + 1] ([], [])
      in \<lparr>data_x_centers = x_values, data_x_low = x_low, data_x_high = x_high,
          data_y_values = y_values, data_y_errors = y_errors\<rparr>)"

subsection \<open>create_binned_variable\<close>

text \<open>
  The loop over \<open>range(len(x_low))\<close>; reading \<open>x_high[i]\<close> past the end of a shorter
  list raises IndexError.
\<close>

fun bin_edges_loop ::
  "nat list \<Rightarrow> real list \<Rightarrow> real list \<Rightarrow> pyval list \<Rightarrow> py_error + pyval list"
where
  "bin_edges_loop [] x_low x_high bin_edges = Inr bin_edges"
| "bin_edges_loop (i # rest) x_low x_high bin_edges =
     (if i < length x_low \<and> i < length x_high
      then bin_edges_loop rest x_low x_high
             (bin_edges @ [PList [PFloat (x_low ! i), PFloat (x_high ! i)]])
      else Inl IndexError)"

definition create_binned_variable ::
  "string \<Rightarrow> real list \<Rightarrow> real list \<Rightarrow> string \<Rightarrow> bool \<Rightarrow> py_error + variable"
where
  "create_binned_variable name x_low x_high units is_independent =
     (let var = Variable (PStr name) is_independent True (PStr units)
      in bind_err (bin_edges_loop [0..<length x_low] x_low x_high [])
           (\<lambda>bin_edges. Inr (var\<lparr>var_values := bin_edges\<rparr>)))"

subsection \<open>create_dependent_variable\<close>

text \<open>
  \<open>y_errors\<close> is None or a list. The uncertainty is attached under the guard
  \<open>y_errors and any(err > 0 for err in y_errors)\<close>.
\<close>

definition create_dependent_variable ::
  "string \<Rightarrow> real list \<Rightarrow> real list option \<Rightarrow> string \<Rightarrow> string \<Rightarrow> real \<Rightarrow> variable"
where
  "create_dependent_variable name y_values y_errors units uncertainty_label CME =
     (let var = Variable (PStr name) False False (PStr units);
          var = var\<lparr>var_values := map PFloat y_values\<rparr>;
          var = (case y_errors of
                   None \<Rightarrow> var
                 | Some errs \<Rightarrow>
                     if errs \<noteq> [] \<and> list_ex (\<lambda>err. err > 0) errs
                     then let unc = Uncertainty uncertainty_label True;
                              unc = unc\<lparr>unc_values := map PFloat errs\<rparr>
                          in add_uncertainty var unc
                     else var)
      in add_qualifier var (PStr ''SQRT(S)'') (PFloat CME) (PStr ''TeV''))"

subsection \<open>get_figure_metadata\<close>

text \<open>The description and location texts of the nine known figures, as UTF-8 bytes.\<close>

definition description_Figure41a :: string where
  "description_Figure41a =
     ''The L1T+HLT efficiency of the Run 3 (2022, L3) triggers in 2022 data, 2023 data, '' @
     ''and simulation as a function of min($p_T$) of the two muons forming TMS-TMS '' @
     ''dimuons in events enriched in J/'' @ [CHR 0xCF, CHR 0x88] @ '' '' @
     [CHR 0xE2, CHR 0x86, CHR 0x92] @ '' '' @ [CHR 0xCE, CHR 0xBC, CHR 0xCE, CHR 0xBC] @
     '' events. Efficiency in data is the fraction of J/'' @ [CHR 0xCF, CHR 0x88] @ '' '' @
     [CHR 0xE2, CHR 0x86, CHR 0x92] @ '' '' @ [CHR 0xCE, CHR 0xBC, CHR 0xCE, CHR 0xBC] @
     '' events recorded by the triggers based on the information from jets and '' @
     ''$p_T^{miss}$ that also satisfy the requirements of the Run 3 (2022, L3) triggers. '' @
     ''It is compared to the efficiency of the Run 3 (2022, L3) triggers in a '' @
     ''combination of simulated samples of J/'' @ [CHR 0xCF, CHR 0x88] @ '' '' @
     [CHR 0xE2, CHR 0x86, CHR 0x92] @ '' '' @ [CHR 0xCE, CHR 0xBC, CHR 0xCE, CHR 0xBC] @
     '' events produced in various b hadron decays. The lower panels show the ratio of '' @
     ''the data to simulated events.''"

definition location_Figure41a :: string where
  "location_Figure41a = ''Data from Figure 41 (upper left).''"

definition description_Figure41b :: string where
  "description_Figure41b =
     ''The L1T+HLT efficiency of the Run 3 (2022, L3) triggers in 2022 data, 2023 data, '' @
     ''and simulation as a function of max($p_T$) of the two muons forming TMS-TMS '' @
     ''dimuons in events enriched in J/'' @ [CHR 0xCF, CHR 0x88] @ '' '' @
     [CHR 0xE2, CHR 0x86, CHR 0x92] @ '' '' @ [CHR 0xCE, CHR 0xBC, CHR 0xCE, CHR 0xBC] @
     '' events. Efficiency in data is the fraction of J/'' @ [CHR 0xCF, CHR 0x88] @ '' '' @
     [CHR 0xE2, CHR 0x86, CHR 0x92] @ '' '' @ [CHR 0xCE, CHR 0xBC, CHR 0xCE, CHR 0xBC] @
     '' events recorded by the triggers based on the information from jets and '' @
     ''$p_T^{miss}$ that also satisfy the requirements of the Run 3 (2022, L3) triggers. '' @
     ''It is compared to the efficiency of the Run 3 (2022, L3) triggers in a '' @
     ''combination of simulated samples of J/'' @ [CHR 0xCF, CHR 0x88] @ '' '' @
     [CHR 0xE2, CHR 0x86, CHR 0x92] @ '' '' @ [CHR 0xCE, CHR 0xBC, CHR 0xCE, CHR 0xBC] @
     '' events produced in various b hadron decays. The lower panels show the ratio of '' @
     ''the data to simulated events.''"

definition location_Figure41b :: string where
  "location_Figure41b = ''Data from Figure 41 (upper right).''"

definition description_Figure41c :: string where
  "description_Figure41c =
     ''The L1T+HLT efficiency of the Run 3 (2022, L3) triggers in 2022 data, 2023 data, '' @
     ''and simulation as a function of min($d_0$) of the two muons forming TMS-TMS '' @
     ''dimuons in events enriched in J/'' @ [CHR 0xCF, CHR 0x88] @ '' '' @
     [CHR 0xE2, CHR 0x86, CHR 0x92] @ '' '' @ [CHR 0xCE, CHR 0xBC, CHR 0xCE, CHR 0xBC] @
     '' events. Efficiency in data is the fraction of J/'' @ [CHR 0xCF, CHR 0x88] @ '' '' @
     [CHR 0xE2, CHR 0x86, CHR 0x92] @ '' '' @ [CHR 0xCE, CHR 0xBC, CHR 0xCE, CHR 0xBC] @
     '' events recorded by the triggers based on the information from jets and '' @
     ''$p_T^{miss}$ that also satisfy the requirements of the Run 3 (2022, L3) triggers. '' @
     ''It is compared to the efficiency of the Run 3 (2022, L3) triggers in a '' @
     ''combination of simulated samples of J/'' @ [CHR 0xCF, CHR 0x88] @ '' '' @
     [CHR 0xE2, CHR 0x86, CHR 0x92] @ '' '' @ [CHR 0xCE, CHR 0xBC, CHR 0xCE, CHR 0xBC] @
     '' events produced in various b hadron decays. The lower panels show the ratio of '' @
     ''the data to simulated events.''"

definition location_Figure41c :: string where
  "location_Figure41c = ''Data from Figure 41 (lower).''"

definition description_Figure42a :: string where
  "description_Figure42a =
     ''The HLT efficiency, defined as the fraction of events recorded by the Run 2 '' @
     ''(2018) triggers that also satisfied the requirements of the Run 3 (2022, L3) '' @
     ''triggers, as a function of offline-reconstructed min($d_0$) of the two muons '' @
     ''forming TMS-TMS dimuons in events enriched in J/'' @ [CHR 0xCF, CHR 0x88] @ '' '' @
     [CHR 0xE2, CHR 0x86, CHR 0x92] @ '' '' @ [CHR 0xCE, CHR 0xBC, CHR 0xCE, CHR 0xBC] @
     ''. The data represent efficiencies during the 2022 and 2023 data-taking periods. '' @
     ''For dimuons with offline min($d_0$) > 0.012 cm, the combined efficiency of the L3 '' @
     ''muon reconstruction and the online min($d_0$) requirement is larger than 90% in '' @
     ''all data-taking periods.''"

definition location_Figure42a :: string where
  "location_Figure42a = ''Data from Figure 42 (upper left).''"

definition description_Figure42b :: string where
  "description_Figure42b =
     ''The HLT efficiency of the Run 3 (2022, L3) triggers and the Run 3 (2022, L3 dTks) '' @
     ''triggers for J/'' @ [CHR 0xCF, CHR 0x88] @ '' '' @ [CHR 0xE2, CHR 0x86, CHR 0x92] @ '' '' @
     [CHR 0xCE, CHR 0xBC, CHR 0xCE, CHR 0xBC] @
     '' events in the 2022 and 2023 data set as a function of offline-reconstructed '' @
     ''min($d_0$) of the two muons forming TMS-TMS dimuons in events enriched in J/'' @
     [CHR 0xCF, CHR 0x88] @ '' '' @ [CHR 0xE2, CHR 0x86, CHR 0x92] @ '' '' @
     [CHR 0xCE, CHR 0xBC, CHR 0xCE, CHR 0xBC] @ ''.''"

definition location_Figure42b :: string where
  "location_Figure42b = ''Data from Figure 42 (upper right).''"

definition description_Figure42c :: string where
  "description_Figure42c =
     ''Invariant mass distribution for TMS-TMS dimuons in events recorded by the Run 2 '' @
     ''(2018) triggers in the combined 2022 and 2023 data set, and in the subset of '' @
     ''events also selected by the Run 3 (2022, L3) trigger and Run 3 (2022, L3 dTks) '' @
     ''trigger, illustrating the prompt muon rejection of the L3 triggers.''"

definition location_Figure42c :: string where
  "location_Figure42c = ''Data from Figure 42 (lower).''"

definition description_Figure43a :: string where
  "description_Figure43a =
     ''The HLT efficiency, defined as the fraction of events recorded by the Run 2 '' @
     ''(2018) triggers that also satisfied the requirements of the Run 3 (2022, L2) '' @
     ''triggers, as a function of offline-reconstructed min($d_0$) of the two muons '' @
     ''forming STA-STA dimuons in events enriched in cosmic ray muons. The data '' @
     ''represent efficiencies during the 2022 and 2023 data-taking periods. For '' @
     ''displaced muons, the efficiency of the online min($d_0$) requirement is larger '' @
     ''than 95% in all data-taking periods.''"

definition location_Figure43a :: string where
  "location_Figure43a = ''Data from Figure 43 (left).''"

definition description_Figure43b :: string where
  "description_Figure43b =
     ''The invariant mass distribution for TMS-TMS dimuons in events recorded by the Run '' @
     ''2 (2018) triggers in the combined 2022 and 2023 data set, and in the subset of '' @
     ''events also selected by the Run 3 (2022, L2) triggers, illustrating the prompt '' @
     ''muon rejection of the Run 3 (2022, L2) triggers.''"

definition location_Figure43b :: string where
  "location_Figure43b = ''Data from Figure 43 (right).''"

definition description_Figure40 :: string where
  "description_Figure40 =
     ''The L1T+HLT efficiencies of the various displaced-dimuon triggers and their '' @
     ''logical OR as a function of $c'' @ [CHR 0x5C] @
     ''tau$ for the HAHM signal events with $m_H = 125'' @ [CHR 0x5C] @ '' GeV$ and $m_{Z_D} = 20'' @
     [CHR 0x5C] @ '' GeV$, for 2022 conditions. The efficiency is defined as the fraction of '' @
     ''simulated events that satisfy the detector acceptance and the requirements of the '' @
     ''following sets of triggers: the Run 2 (2018) triggers (dashed black); the Run 3 '' @
     ''(2022, L3) triggers (blue); the Run 3 (2022, L2) triggers (red); and the logical '' @
     ''OR of all these triggers (Run 3 (2022), solid black). The lower panel shows the '' @
     ''ratio of the overall Run 3 (2022) efficiency to the Run 2 (2018) efficiency.''"

definition location_Figure40 :: string where
  "location_Figure40 = ''Data from Figure 40.''"

definition metadata :: "(string \<times> (string \<times> string) list) list" where
  "metadata =
     [(''Figure41a'', [(''description'', description_Figure41a), (''location'', location_Figure41a)]),
      (''Figure41b'', [(''description'', description_Figure41b), (''location'', location_Figure41b)]),
      (''Figure41c'', [(''description'', description_Figure41c), (''location'', location_Figure41c)]),
      (''Figure42a'', [(''description'', description_Figure42a), (''location'', location_Figure42a)]),
      (''Figure42b'', [(''description'', description_Figure42b), (''location'', location_Figure42b)]),
      (''Figure42c'', [(''description'', description_Figure42c), (''location'', location_Figure42c)]),
      (''Figure43a'', [(''description'', description_Figure43a), (''location'', location_Figure43a)]),
      (''Figure43b'', [(''description'', description_Figure43b), (''location'', location_Figure43b)]),
      (''Figure40'', [(''description'', description_Figure40), (''location'', location_Figure40)])]"

text \<open>\<open>metadata.get(figure_name, default)\<close>; a dict is its list of items.\<close>

definition get_figure_metadata :: "string \<Rightarrow> (string \<times> string) list" where
  "get_figure_metadata figure_name =
     (case map_of metadata figure_name of
        Some entry \<Rightarrow> entry
      | None \<Rightarrow>
          [(''description'', ''PLACEHOLDER: Description for '' @ figure_name),
           (''location'', ''PLACEHOLDER: Location for '' @ figure_name)])"

text \<open>\<open>d[key]\<close> on such a dict raises KeyError for a missing key.\<close>

definition dict_getitem :: "(string \<times> 'a) list \<Rightarrow> string \<Rightarrow> py_error + 'a" where
  "dict_getitem d key = (case map_of d key of Some v \<Rightarrow> Inr v | None \<Rightarrow> Inl KeyError)"

subsection \<open>get_x_axis_info\<close>

definition get_x_axis_info :: "string \<Rightarrow> string \<Rightarrow> string \<times> string" where
  "get_x_axis_info x_axis_title figure_name =
     (let title = strip x_axis_title in
      if figure_name = ''Figure41a'' then (''min($p_T$)'', ''GeV'')
      else if figure_name = ''Figure41b'' then (''max($p_T$)'', ''GeV'')
      else if figure_name = ''Figure41c'' then (''min($d_0$)'', ''cm'')
      else if figure_name \<in> set [''Figure42a'', ''Figure42b''] then (''min($d_0$)'', ''cm'')
      else if figure_name \<in> set [''Figure42c'', ''Figure43b'']
        then (''$m_{'' @ [CHR 0x5C] @ ''mu'' @ [CHR 0x5C] @ ''mu}$'', ''GeV'')
      else if figure_name = ''Figure43a'' then (''min($d_0$)'', ''cm'')
      else if str_in ''[GeV]'' title then (strip (replace title ''[GeV]'' []), ''GeV'')
      else if str_in ''[cm]'' title then (strip (replace title ''[cm]'' []), ''cm'')
      else (if title \<noteq> [] then title else ''Variable'', []))"

subsection \<open>create_variable_name\<close>

text \<open>
  The second half of the function: the name patterns tried when no figure-specific
  branch has returned.
\<close>

definition generic_variable_name :: "string \<Rightarrow> string" where
  "generic_variable_name hist_name =
     (if str_in ''dTks'' hist_name then ''Run 3 (2022, L3 dTks) trigger efficiency''
      else if str_in ''DisplacedL3'' hist_name \<and> str_in ''Muon'' hist_name
        then ''Run 3 (2022, L3) trigger efficiency''
      else if str_in ''DisplacedL3'' hist_name \<and> str_in ''JetMET'' hist_name
        then (if str_in ''2022'' hist_name
                then ''Run 3 (2022, L3) trigger efficiency - 2022 data''
              else if str_in ''2023'' hist_name
                then ''Run 3 (2022, L3) trigger efficiency - 2023 data''
              else ''Run 3 (2022, L3) trigger efficiency'')
      else if str_in ''BtoJPsi'' hist_name
        then ''Run 3 (2022, L3) trigger efficiency - simulation''
      else if str_in ''COSMI'' hist_name
        then (if str_in ''2022'' hist_name
                then ''Run 3 (2022, L2) trigger efficiency - 2022 data''
              else if str_in ''2023'' hist_name
                then ''Run 3 (2022, L2) trigger efficiency - 2023 data''
              else ''Run 3 (2022, L2) trigger efficiency'')
      else if str_in ''ratio'' hist_name then ''Data/MC ratio''
      else ''Efficiency ('' @ hist_name @ '')'')"

definition create_variable_name :: "string \<Rightarrow> string \<Rightarrow> string" where
  "create_variable_name hist_name figure_name =
     (if figure_name = ''Figure42c'' then
        (if str_in ''MuonRun3HLTRun2'' hist_name then ''Run 2 (2018) observed events''
         else if str_in ''DisplacedL3'' hist_name \<and> \<not> str_in ''dTks'' hist_name
           then ''Run 3 (2022, L3) observed events''
         else if str_in ''dTks'' hist_name then ''Run 3 (2022, L3 dTks) observed events''
         else generic_variable_name hist_name)
      else if figure_name = ''Figure43b'' then
        (if str_in ''MuonRun3HLTRun2'' hist_name then ''Run 2 (2018) observed events''
         else if str_in ''L3VetoOR'' hist_name then ''Run 3 (2022, L2) observed events''
         else generic_variable_name hist_name)
      else if figure_name = ''Figure42a'' then
        (if str_in ''HData2022'' hist_name
           then ''Run 3 (2022, L3) trigger efficiency - 2022 data''
         else if str_in ''2023'' hist_name
           then ''Run 3 (2022, L3) trigger efficiency - 2023 data''
         else generic_variable_name hist_name)
      else generic_variable_name hist_name)"

subsection \<open>process_single_figure\<close>

text \<open>
  The image step, written the same way in both figure-processing functions: the probe
  runs only when the path exists; an exception of \<open>add_image\<close> is caught and logged.
\<close>

definition add_figure_image :: "environment \<Rightarrow> table \<Rightarrow> string \<Rightarrow> py_error + table" where
  "add_figure_image env tbl pdf_path =
     (if os_path_exists env pdf_path
      then bind_err (check_imagemagick_available (subprocess_run env))
             (\<lambda>available.
                if available
                then (if add_image_raises env then Inr tbl else Inr (add_image tbl pdf_path))
                else Inr tbl)
      else Inr tbl)"

text \<open>
  The loop that drops ratio panels and duplicates; its state is \<open>processed_names\<close> and
  \<open>unique_histograms\<close>.
\<close>

definition is_ratio :: "hist \<Rightarrow> bool" where
  "is_ratio hist \<longleftrightarrow>
     str_in ''ratio'' (lower (GetName hist)) \<or> str_in ''Data/MC'' (GetYaxis_GetTitle hist)"

fun filter_loop :: "hist list \<Rightarrow> string set \<times> hist list \<Rightarrow> string set \<times> hist list" where
  "filter_loop [] state = state"
| "filter_loop (hist # rest) (processed_names, unique_histograms) =
     (let hist_name = GetName hist;
          y_axis_title = GetYaxis_GetTitle hist
      in if str_in ''ratio'' (lower hist_name) \<or> str_in ''Data/MC'' y_axis_title
         then filter_loop rest (processed_names, unique_histograms)
         else let base_name = replace hist_name ''_copy'' []
              in if base_name \<in> processed_names
                 then filter_loop rest (processed_names, unique_histograms)
                 else filter_loop rest
                        (insert base_name processed_names, unique_histograms @ [hist]))"

definition unique_histograms_of :: "hist list \<Rightarrow> hist list" where
  "unique_histograms_of histograms = snd (filter_loop histograms ({}, []))"

text \<open>The loop that adds one dependent variable per retained histogram.\<close>

fun dependent_loop :: "hist list \<Rightarrow> string \<Rightarrow> table \<Rightarrow> table" where
  "dependent_loop [] figure_name tbl = tbl"
| "dependent_loop (hist # rest) figure_name tbl =
     (let hist_name = GetName hist;
          hist_data = extract_histogram_data hist;
          y_axis_title = GetYaxis_GetTitle hist;
          var_name = create_variable_name hist_name figure_name;
          y_units = (if str_in ''Efficiency'' y_axis_title then []
                     else if str_in ''Data/MC'' y_axis_title then []
                     else []);
          y_var = create_dependent_variable var_name (data_y_values hist_data)
                    (Some (data_y_errors hist_data)) y_units ''Statistical uncertainty''
                    (136 / 10)
      in dependent_loop rest figure_name (add_variable tbl y_var))"

definition process_single_figure ::
  "environment \<Rightarrow> submission \<Rightarrow> string \<Rightarrow> string \<Rightarrow> py_error + bool \<times> submission"
where
  "process_single_figure env submission root_file_path figure_name =
     (case TFile_Open env root_file_path of
        None \<Rightarrow> Inr (False, submission)
      | Some root_file \<Rightarrow>
          if IsZombie root_file then Inr (False, submission)
          else case Get_c root_file of
            None \<Rightarrow> Inr (False, submission)
          | Some histograms \<Rightarrow>
              if histograms = [] then Inr (False, submission)
              else
                let metadata = get_figure_metadata figure_name;
                    tbl = Table figure_name
                in bind_err (dict_getitem metadata ''description'') (\<lambda>description.
                   bind_err (dict_getitem metadata ''location'') (\<lambda>location.
                   let tbl = tbl\<lparr>table_description := description\<rparr>;
                       tbl = tbl\<lparr>table_location := location\<rparr>;
                       tbl = tbl\<lparr>table_keywords :=
                               (table_keywords tbl)(''reactions'' \<mapsto> [''P P --> X''])\<rparr>;
                       tbl = tbl\<lparr>table_keywords :=
                               (table_keywords tbl)(''observables'' \<mapsto> [''EFF''])\<rparr>;
                       tbl = tbl\<lparr>table_keywords :=
                               (table_keywords tbl)(''phrases'' \<mapsto>
                                 [''CMS'', ''LLP'', ''long-lived particles'', ''trigger'',
                                  ''efficiency'', ''displaced muons''])\<rparr>;
                       pdf_path = ''data_Alejandro/'' @ figure_name @ ''.pdf''
                   in bind_err (add_figure_image env tbl pdf_path) (\<lambda>tbl.
                      let unique_histograms = unique_histograms_of histograms
                      in bind_err
                           (case unique_histograms of
                              [] \<Rightarrow> Inr tbl
                            | first_hist # others \<Rightarrow>
                                let first_hist_data = extract_histogram_data first_hist;
                                    x_axis_title = GetXaxis_GetTitle first_hist;
                                    (x_name, x_units) = get_x_axis_info x_axis_title figure_name
                                in bind_err
                                     (create_binned_variable x_name
                                        (data_x_low first_hist_data)
                                        (data_x_high first_hist_data) x_units True)
                                     (\<lambda>x_var. Inr (add_variable tbl x_var)))
                           (\<lambda>tbl.
                              let tbl = dependent_loop unique_histograms figure_name tbl
                              in Inr (True, add_table submission tbl))))))"

subsection \<open>process_existing_yaml_file\<close>











section \<open>Notions used to state the properties\<close>

text \<open>What the filtering loop keeps of a list, given the names already processed.\<close>

definition base_name_of :: "hist \<Rightarrow> string" where
  "base_name_of hist = replace (GetName hist) ''_copy'' []"

fun retained :: "string set \<Rightarrow> hist list \<Rightarrow> hist list" where
  "retained processed_names [] = []"
| "retained processed_names (hist # rest) =
     (if is_ratio hist then retained processed_names rest
      else if base_name_of hist \<in> processed_names then retained processed_names rest
      else hist # retained (insert (base_name_of hist) processed_names) rest)"

text \<open>The independent variable built from a histogram, and the dependent one.\<close>

definition bin_edges_of :: "hist \<Rightarrow> pyval list" where
  "bin_edges_of hist =
     map (\<lambda>i. PList [PFloat (GetBinLowEdge hist i),
                       PFloat (GetBinLowEdge hist i + GetBinWidth hist i)])
       [1..<GetNbinsX hist + 1]"

definition axis_variable_of :: "string \<Rightarrow> hist \<Rightarrow> variable" where
  "axis_variable_of figure_name hist =
     \<lparr>var_name = PStr (fst (get_x_axis_info (GetXaxis_GetTitle hist) figure_name)),
      var_is_independent = True, var_is_binned = True,
      var_units = PStr (snd (get_x_axis_info (GetXaxis_GetTitle hist) figure_name)),
      var_values = bin_edges_of hist, var_uncertainties = [], var_qualifiers = []\<rparr>"

definition dependent_variable_of :: "string \<Rightarrow> hist \<Rightarrow> variable" where
  "dependent_variable_of figure_name hist =
     create_dependent_variable (create_variable_name (GetName hist) figure_name)
       (data_y_values (extract_histogram_data hist))
       (Some (data_y_errors (extract_histogram_data hist)))
       [] ''Statistical uncertainty'' (136 / 10)"

definition figure_variables :: "string \<Rightarrow> hist list \<Rightarrow> variable list" where
  "figure_variables figure_name unique_histograms =
     (case unique_histograms of
        [] \<Rightarrow> []
      | first_hist # others \<Rightarrow> [axis_variable_of figure_name first_hist]) @
     map (dependent_variable_of figure_name) unique_histograms"

text \<open>The lengths of the value sequences of a list of variables.\<close>

definition value_lengths :: "variable list \<Rightarrow> nat list" where
  "value_lengths vars = map (\<lambda>v. length (var_values v)) vars"

definition pdf_path_of :: "string \<Rightarrow> string" where
  "pdf_path_of figure_name = ''data_Alejandro/'' @ figure_name @ ''.pdf''"

text \<open>
  A container that opens, is no zombie and has a canvas \<open>c\<close> with at least one plot
  object; and a probe whose exception, if any, is among those caught.
\<close>

definition opens_with :: "environment \<Rightarrow> string \<Rightarrow> hist list \<Rightarrow> bool" where
  "opens_with env root_file_path histograms \<longleftrightarrow>
     (case TFile_Open env root_file_path of
        None \<Rightarrow> False
      | Some root_file \<Rightarrow>
          \<not> IsZombie root_file \<and> Get_c root_file = Some histograms \<and> histograms \<noteq> [])"

definition image_attached :: "environment \<Rightarrow> string \<Rightarrow> bool" where
  "image_attached env pdf_path \<longleftrightarrow>
     os_path_exists env pdf_path \<and> subprocess_run env = Completed 0 \<and>
     \<not> add_image_raises env"
















section \<open>Example inputs\<close>

text \<open>
  A histogram of \<open>n\<close> bins of width 1 from 0, every bin with content 1 and the given
  error.
\<close>

definition unit_hist :: "string \<Rightarrow> string \<Rightarrow> nat \<Rightarrow> real \<Rightarrow> hist" where
  "unit_hist name y_title n err =
     \<lparr>GetName = name, GetNbinsX = n,
      GetBinCenter = (\<lambda>i. real i - 1 / 2),
      GetBinLowEdge = (\<lambda>i. real i - 1),
      GetBinWidth = (\<lambda>i. 1),
      GetBinContent = (\<lambda>i. 1),
      GetBinError = (\<lambda>i. err),
      GetXaxis_GetTitle = ''x [GeV]'', GetYaxis_GetTitle = y_title\<rparr>"




text \<open>
  An environment in which every container opens with the given plot objects, with the
  given answer to whether a path exists and the given end of the probe.
\<close>

definition figure_env :: "hist list \<Rightarrow> bool \<Rightarrow> probe_outcome \<Rightarrow> environment" where
  "figure_env histograms pdf_exists probe =
     \<lparr>TFile_Open = (\<lambda>path. Some \<lparr>IsZombie = False, Get_c = Some histograms\<rparr>),
      os_path_exists = (\<lambda>path. pdf_exists),
      subprocess_run = probe,
      add_image_raises = False,
      yaml_safe_load = (\<lambda>path. Inl OSError)\<rparr>"





section \<open>Properties\<close>

subsection \<open>The loops as maps\<close>


lemma edges_loop_maps:
  "edges_loop hist ixs (a, b, c) =
     (a @ map (GetBinCenter hist) ixs, b @ map (GetBinLowEdge hist) ixs,
      c @ map (\<lambda>i. GetBinLowEdge hist i + GetBinWidth hist i) ixs)"
  by (induction ixs arbitrary: a b c) simp_all

lemma contents_loop_maps:
  "contents_loop hist ixs (a, b) =
     (a @ map (GetBinContent hist) ixs, b @ map (GetBinError hist) ixs)"
  by (induction ixs arbitrary: a b) simp_all

lemma extract_histogram_data_maps:
  "extract_histogram_data hist =
     \<lparr>data_x_centers = map (GetBinCenter hist) [1..<GetNbinsX hist + 1],
      data_x_low = map (GetBinLowEdge hist) [1..<GetNbinsX hist + 1],
      data_x_high = map (\<lambda>i. GetBinLowEdge hist i + GetBinWidth hist i) [1..<GetNbinsX hist + 1],
      data_y_values = map (GetBinContent hist) [1..<GetNbinsX hist + 1],
      data_y_errors = map (GetBinError hist) [1..<GetNbinsX hist + 1]\<rparr>"
  by (simp add: extract_histogram_data_def edges_loop_maps contents_loop_maps Let_def del: upt_Suc)

lemma bin_edges_loop_maps:
  "\<forall>i \<in> set ixs. i < length x_low \<and> i < length x_high \<Longrightarrow>
   bin_edges_loop ixs x_low x_high acc =
     Inr (acc @ map (\<lambda>i. PList [PFloat (x_low ! i), PFloat (x_high ! i)]) ixs)"
  by (induction ixs arbitrary: acc) simp_all

lemma create_binned_variable_extract:
  "create_binned_variable name (data_x_low (extract_histogram_data hist))
     (data_x_high (extract_histogram_data hist)) units True =
   Inr \<lparr>var_name = PStr name, var_is_independent = True, var_is_binned = True,
        var_units = PStr units, var_values = bin_edges_of hist,
        var_uncertainties = [], var_qualifiers = []\<rparr>"
proof -
  let ?n = "GetNbinsX hist"
  have "bin_edges_loop [0..<?n] (map (GetBinLowEdge hist) [1..<?n + 1])
          (map (\<lambda>i. GetBinLowEdge hist i + GetBinWidth hist i) [1..<?n + 1]) [] =
        Inr (map (\<lambda>i. PList [PFloat (map (GetBinLowEdge hist) [1..<?n + 1] ! i),
                 PFloat (map (\<lambda>i. GetBinLowEdge hist i + GetBinWidth hist i) [1..<?n + 1] ! i)])
               [0..<?n])"
    by (subst bin_edges_loop_maps) (simp_all del: upt_Suc)
  also have "map (\<lambda>i. PList [PFloat (map (GetBinLowEdge hist) [1..<?n + 1] ! i),
                 PFloat (map (\<lambda>i. GetBinLowEdge hist i + GetBinWidth hist i) [1..<?n + 1] ! i)])
               [0..<?n] = bin_edges_of hist"
    unfolding bin_edges_of_def
    by (rule nth_equalityI) (simp_all del: upt_Suc)
  finally show ?thesis
    by (simp add: create_binned_variable_def extract_histogram_data_maps Variable_def del: upt_Suc)
qed

lemma filter_loop_retained:
  "filter_loop hs (names, kept) =
     (names \<union> base_name_of ` set (retained names hs), kept @ retained names hs)"
  by (induction hs arbitrary: names kept) (auto simp: is_ratio_def base_name_of_def Let_def)

lemma unique_histograms_of_retained: "unique_histograms_of hs = retained {} hs"
  by (simp add: unique_histograms_of_def filter_loop_retained)

lemma dependent_loop_maps:
  "dependent_loop hs figure_name tbl =
     tbl\<lparr>table_variables := table_variables tbl @ map (dependent_variable_of figure_name) hs\<rparr>"
  by (induction hs arbitrary: tbl) (simp_all add: dependent_variable_of_def add_variable_def Let_def)


lemma get_figure_metadata_shape:
  "\<exists>d l. get_figure_metadata figure_name = [(''description'', d), (''location'', l)]"
  by (simp add: get_figure_metadata_def metadata_def)

lemma add_figure_image_result:
  "\<not> (os_path_exists env pdf_path \<and> subprocess_run env = PermissionError) \<Longrightarrow>
   add_figure_image env tbl pdf_path =
     Inr (if image_attached env pdf_path then add_image tbl pdf_path else tbl)"
  by (cases "subprocess_run env") (auto simp: add_figure_image_def image_attached_def)

lemma add_figure_image_raises:
  "os_path_exists env pdf_path \<Longrightarrow> subprocess_run env = PermissionError \<Longrightarrow>
   add_figure_image env tbl pdf_path = Inl OSError"
  by (simp add: add_figure_image_def)

lemma process_single_figure_emits:
  assumes "opens_with env root_file_path histograms"
    and "\<not> (os_path_exists env (pdf_path_of figure_name) \<and> subprocess_run env = PermissionError)"
  shows "\<exists>tbl. process_single_figure env submission root_file_path figure_name =
                 Inr (True, submission @ [tbl]) \<and>
               table_name tbl = figure_name \<and>
               dict_getitem (get_figure_metadata figure_name) ''description'' =
                 Inr (table_description tbl) \<and>
               dict_getitem (get_figure_metadata figure_name) ''location'' =
                 Inr (table_location tbl) \<and>
               table_image_files tbl =
                 (if image_attached env (pdf_path_of figure_name)
                  then [pdf_path_of figure_name] else []) \<and>
               table_variables tbl =
                 figure_variables figure_name (unique_histograms_of histograms)"
proof -
  obtain d l where md: "get_figure_metadata figure_name = [(''description'', d), (''location'', l)]"
    using get_figure_metadata_shape by blast
  obtain root_file where rf: "TFile_Open env root_file_path = Some root_file"
    "\<not> IsZombie root_file" "Get_c root_file = Some histograms" "histograms \<noteq> []"
    using assms(1) by (auto simp: opens_with_def split: option.splits)
  have img: "\<And>tbl. add_figure_image env tbl (''data_Alejandro/'' @ figure_name @ ''.pdf'') =
     Inr (if image_attached env (pdf_path_of figure_name)
          then add_image tbl (pdf_path_of figure_name) else tbl)"
    using add_figure_image_result [OF assms(2)] by (simp add: pdf_path_of_def)
  note img' = img [unfolded append_Cons append_Nil]
  show ?thesis
  proof (cases "unique_histograms_of histograms")
    case Nil
    then show ?thesis
      by (simp add: process_single_figure_def rf md dict_getitem_def img' Table_def
          add_image_def add_table_def figure_variables_def)
  next
    case (Cons first_hist others)
    then show ?thesis
      by (simp add: process_single_figure_def rf md dict_getitem_def img' Table_def
          add_image_def add_table_def figure_variables_def dependent_loop_maps
          create_binned_variable_extract add_variable_def axis_variable_of_def split_beta Let_def)
  qed
qed


subsection \<open>The filtering loop\<close>





lemma is_ratio_unit_hist:
  "is_ratio (unit_hist name y_title n err) \<longleftrightarrow>
     str_in ''ratio'' (lower name) \<or> str_in ''Data/MC'' y_title"
  by (simp add: is_ratio_def unit_hist_def)

lemma base_name_of_unit_hist:
  "base_name_of (unit_hist name y_title n err) = replace name ''_copy'' []"
  by (simp add: base_name_of_def unit_hist_def)






subsection \<open>create_dependent_variable\<close>





subsection \<open>extract_histogram_data\<close>




subsection \<open>process_single_figure\<close>

lemma process_single_figure_fails:
  assumes "\<forall>histograms. \<not> opens_with env root_file_path histograms"
  shows "process_single_figure env submission root_file_path figure_name =
           Inr (False, submission)"
proof (cases "TFile_Open env root_file_path")
  case None
  then show ?thesis by (simp add: process_single_figure_def)
next
  case (Some root_file)
  show ?thesis
  proof (cases "Get_c root_file")
    case None
    then show ?thesis using Some by (simp add: process_single_figure_def)
  next
    case (Some histograms)
    then have "IsZombie root_file \<or> histograms = []"
      using assms [rule_format, of histograms] \<open>TFile_Open env root_file_path = Some root_file\<close>
      by (simp add: opens_with_def)
    then show ?thesis
      using Some \<open>TFile_Open env root_file_path = Some root_file\<close>
      by (auto simp: process_single_figure_def)
  qed
qed

lemma opens_with_unique:
  "opens_with env root_file_path hs \<Longrightarrow> opens_with env root_file_path hs' \<Longrightarrow> hs = hs'"
  by (auto simp: opens_with_def split: option.splits)

lemma process_single_figure_raises:
  assumes "opens_with env root_file_path histograms"
    and "os_path_exists env (pdf_path_of figure_name)"
    and "subprocess_run env = PermissionError"
  shows "process_single_figure env submission root_file_path figure_name = Inl OSError"
proof -
  obtain d l where md: "get_figure_metadata figure_name = [(''description'', d), (''location'', l)]"
    using get_figure_metadata_shape by blast
  obtain root_file where rf: "TFile_Open env root_file_path = Some root_file"
    "\<not> IsZombie root_file" "Get_c root_file = Some histograms" "histograms \<noteq> []"
    using assms(1) by (auto simp: opens_with_def split: option.splits)
  have img: "\<And>tbl. add_figure_image env tbl (''data_Alejandro/'' @ figure_name @ ''.pdf'') =
     Inl OSError"
    using add_figure_image_raises [OF assms(2) assms(3)] by (simp add: pdf_path_of_def)
  note img' = img [unfolded append_Cons append_Nil]
  show ?thesis
    by (simp add: process_single_figure_def rf md dict_getitem_def img')
qed

lemma opens_with_figure_env:
  "histograms \<noteq> [] \<Longrightarrow> opens_with (figure_env histograms pdf_exists probe) path histograms"
  by (simp add: opens_with_def figure_env_def)

lemma figure_env_simps:
  "os_path_exists (figure_env histograms pdf_exists probe) path = pdf_exists"
  "subprocess_run (figure_env histograms pdf_exists probe) = probe"
  "add_image_raises (figure_env histograms pdf_exists probe) = False"
  by (simp_all add: figure_env_def)

lemma independent_figure_variables:
  "filter var_is_independent (figure_variables figure_name hs) =
     (case hs of [] \<Rightarrow> [] | first_hist # others \<Rightarrow> [axis_variable_of figure_name first_hist])"
proof -
  have "filter var_is_independent (map (dependent_variable_of figure_name) hs) = []"
    by (induction hs)
      (simp_all add: dependent_variable_of_def create_dependent_variable_def Variable_def
        add_uncertainty_def add_qualifier_def Let_def)
  then show ?thesis
    by (cases hs) (simp_all add: figure_variables_def axis_variable_of_def)
qed

lemma dependent_figure_variables:
  "filter (\<lambda>v. \<not> var_is_independent v) (figure_variables figure_name hs) =
     map (dependent_variable_of figure_name) hs"
proof -
  have "filter (\<lambda>v. \<not> var_is_independent v) (map (dependent_variable_of figure_name) hs) =
          map (dependent_variable_of figure_name) hs"
    by (induction hs)
      (simp_all add: dependent_variable_of_def create_dependent_variable_def Variable_def
        add_uncertainty_def add_qualifier_def Let_def)
  then show ?thesis
    by (cases hs) (simp_all add: figure_variables_def axis_variable_of_def)
qed

lemma length_values_dependent_variable_of:
  "length (var_values (dependent_variable_of figure_name hist)) = GetNbinsX hist"
  by (simp add: dependent_variable_of_def create_dependent_variable_def Variable_def
      add_uncertainty_def add_qualifier_def Let_def extract_histogram_data_maps del: upt_Suc)

lemma length_values_axis_variable_of:
  "length (var_values (axis_variable_of figure_name hist)) = GetNbinsX hist"
  by (simp add: axis_variable_of_def bin_edges_of_def del: upt_Suc)







lemma process_single_figure_True:
  assumes "process_single_figure env submission root_file_path figure_name =
             Inr (True, submission')"
  shows "\<exists>histograms. opens_with env root_file_path histograms \<and>
           \<not> (os_path_exists env (pdf_path_of figure_name) \<and>
              subprocess_run env = PermissionError)"
proof -
  obtain histograms where opens: "opens_with env root_file_path histograms"
    using assms process_single_figure_fails [of env root_file_path submission figure_name]
    by auto
  moreover have "\<not> (os_path_exists env (pdf_path_of figure_name) \<and>
                    subprocess_run env = PermissionError)"
    using assms process_single_figure_raises [OF opens, of figure_name submission]
    by auto
  ultimately show ?thesis by blast
qed





lemma value_lengths_dependent:
  "value_lengths (map (dependent_variable_of figure_name) hs) = map GetNbinsX hs"
  by (simp add: value_lengths_def length_values_dependent_variable_of comp_def)

text \<open>
  C4, as stated: two retained histograms of 1 and of 2 bins give a Table whose
  independent Variable has 1 value and whose second dependent Variable has 2.
\<close>

theorem differing_bin_counts_counterexample:
  "\<not> isl (process_single_figure
            (figure_env [unit_hist ''hx'' ''Efficiency'' 1 1, unit_hist ''hy'' ''Efficiency'' 2 1]
               False FileNotFoundError)
            [] ''data_Alejandro/Figure41a.root'' ''Figure41a'') \<and>
   fst (projr (process_single_figure
            (figure_env [unit_hist ''hx'' ''Efficiency'' 1 1, unit_hist ''hy'' ''Efficiency'' 2 1]
               False FileNotFoundError)
            [] ''data_Alejandro/Figure41a.root'' ''Figure41a'')) = True \<and>
   value_lengths (independent_variables (last (snd (projr (process_single_figure
            (figure_env [unit_hist ''hx'' ''Efficiency'' 1 1, unit_hist ''hy'' ''Efficiency'' 2 1]
               False FileNotFoundError)
            [] ''data_Alejandro/Figure41a.root'' ''Figure41a''))))) = [1] \<and>
   value_lengths (dependent_variables (last (snd (projr (process_single_figure
            (figure_env [unit_hist ''hx'' ''Efficiency'' 1 1, unit_hist ''hy'' ''Efficiency'' 2 1]
               False FileNotFoundError)
            [] ''data_Alejandro/Figure41a.root'' ''Figure41a''))))) = [1, 2]"
proof -
  let ?hs = "[unit_hist ''hx'' ''Efficiency'' 1 1, unit_hist ''hy'' ''Efficiency'' 2 1]"
  let ?env = "figure_env ?hs False FileNotFoundError"
  have kept: "unique_histograms_of ?hs = ?hs"
    by (simp add: unique_histograms_of_retained is_ratio_unit_hist base_name_of_unit_hist
        lower_def lower_char_def)
  have "opens_with ?env ''data_Alejandro/Figure41a.root'' ?hs"
    by (rule opens_with_figure_env) simp
  moreover have "\<not> (os_path_exists ?env (pdf_path_of ''Figure41a'') \<and>
                    subprocess_run ?env = PermissionError)"
    by (simp add: figure_env_simps)
  ultimately obtain tbl where tbl:
    "process_single_figure ?env [] ''data_Alejandro/Figure41a.root'' ''Figure41a'' =
       Inr (True, [] @ [tbl])"
    "table_variables tbl = figure_variables ''Figure41a'' (unique_histograms_of ?hs)"
    using process_single_figure_emits
      [of ?env "''data_Alejandro/Figure41a.root''" ?hs "''Figure41a''" "[]"]
    by blast
  have "value_lengths (independent_variables tbl) = [1]"
    using tbl(2) kept
    by (simp add: independent_variables_def independent_figure_variables value_lengths_def
        length_values_axis_variable_of unit_hist_def)
  moreover have "value_lengths (dependent_variables tbl) = [1, 2]"
    using tbl(2) kept
    by (simp add: dependent_variables_def dependent_figure_variables value_lengths_def
        length_values_dependent_variable_of unit_hist_def)
  ultimately show ?thesis
    using tbl(1) by simp
qed

text \<open>
  C4, amended: for every Table produced by process_single_figure, the value sequence of
  each dependent Variable has the length of its own source histogram's bin count, in the
  order of the retained histograms, and the independent Variable, built from the first
  retained histogram, has that histogram's bin count; so every dependent Variable has
  the length of the independent Variable exactly when every retained histogram has the
  bin count of the first one, which the code does not check.
\<close>

theorem table_value_lengths:
  assumes "process_single_figure env submission root_file_path figure_name =
             Inr (True, submission')"
  shows "\<exists>tbl histograms.
      submission' = submission @ [tbl] \<and> opens_with env root_file_path histograms \<and>
      value_lengths (dependent_variables tbl) =
        map GetNbinsX (unique_histograms_of histograms) \<and>
      value_lengths (independent_variables tbl) =
        map GetNbinsX (take 1 (unique_histograms_of histograms)) \<and>
      ((\<forall>v \<in> set (dependent_variables tbl). \<forall>x \<in> set (independent_variables tbl).
          length (var_values v) = length (var_values x)) \<longleftrightarrow>
       (\<forall>h \<in> set (unique_histograms_of histograms).
          GetNbinsX h = GetNbinsX (hd (unique_histograms_of histograms))))"
proof -
  obtain histograms where opens: "opens_with env root_file_path histograms"
    and probe: "\<not> (os_path_exists env (pdf_path_of figure_name) \<and>
                   subprocess_run env = PermissionError)"
    using process_single_figure_True [OF assms] by blast
  obtain tbl where tbl:
    "process_single_figure env submission root_file_path figure_name =
       Inr (True, submission @ [tbl])"
    "table_variables tbl = figure_variables figure_name (unique_histograms_of histograms)"
    using process_single_figure_emits [OF opens probe, of submission] by blast
  let ?kept = "unique_histograms_of histograms"
  have sub: "submission' = submission @ [tbl]"
    using assms tbl(1) by simp
  have dep: "dependent_variables tbl = map (dependent_variable_of figure_name) ?kept"
    using tbl(2) by (simp add: dependent_variables_def dependent_figure_variables)
  have indep: "independent_variables tbl =
      map (axis_variable_of figure_name) (take 1 ?kept)"
    using tbl(2)
    by (cases ?kept) (simp_all add: independent_variables_def independent_figure_variables)
  have dep_lengths: "value_lengths (dependent_variables tbl) = map GetNbinsX ?kept"
    using dep by (simp add: value_lengths_dependent)
  have indep_lengths: "value_lengths (independent_variables tbl) = map GetNbinsX (take 1 ?kept)"
    using indep by (simp add: value_lengths_def length_values_axis_variable_of comp_def)
  have "(\<forall>v \<in> set (dependent_variables tbl). \<forall>x \<in> set (independent_variables tbl).
          length (var_values v) = length (var_values x)) \<longleftrightarrow>
        (\<forall>h \<in> set ?kept. GetNbinsX h = GetNbinsX (hd ?kept))"
  proof (cases ?kept)
    case Nil
    then show ?thesis using dep by simp
  next
    case (Cons first_hist others)
    then show ?thesis
      using dep indep
      by (simp add: length_values_dependent_variable_of length_values_axis_variable_of)
  qed
  with sub opens dep_lengths indep_lengths show ?thesis
    by blast
qed

theorem table_value_lengths_witness:
  "process_single_figure
     (figure_env [unit_hist ''hx'' ''Efficiency'' 2 1, unit_hist ''hy'' ''Efficiency'' 2 1]
        False FileNotFoundError)
     [] ''data_Alejandro/Figure41a.root'' ''Figure41a'' =
   Inr (True, snd (projr (process_single_figure
     (figure_env [unit_hist ''hx'' ''Efficiency'' 2 1, unit_hist ''hy'' ''Efficiency'' 2 1]
        False FileNotFoundError)
     [] ''data_Alejandro/Figure41a.root'' ''Figure41a''))) \<and>
   (\<exists>tbl. snd (projr (process_single_figure
       (figure_env [unit_hist ''hx'' ''Efficiency'' 2 1, unit_hist ''hy'' ''Efficiency'' 2 1]
          False FileNotFoundError)
       [] ''data_Alejandro/Figure41a.root'' ''Figure41a'')) = [tbl] \<and>
     value_lengths (dependent_variables tbl) = [2, 2] \<and>
     value_lengths (independent_variables tbl) = [2])"
proof -
  let ?hs = "[unit_hist ''hx'' ''Efficiency'' 2 1, unit_hist ''hy'' ''Efficiency'' 2 1]"
  let ?env = "figure_env ?hs False FileNotFoundError"
  let ?run = "process_single_figure ?env [] ''data_Alejandro/Figure41a.root'' ''Figure41a''"
  have kept: "unique_histograms_of ?hs = ?hs"
    by (simp add: unique_histograms_of_retained is_ratio_unit_hist base_name_of_unit_hist
        lower_def lower_char_def)
  have opens: "opens_with ?env ''data_Alejandro/Figure41a.root'' ?hs"
    by (rule opens_with_figure_env) simp
  have "\<not> (os_path_exists ?env (pdf_path_of ''Figure41a'') \<and>
           subprocess_run ?env = PermissionError)"
    by (simp add: figure_env_simps)
  with opens obtain tbl0 where "?run = Inr (True, [] @ [tbl0])"
    using process_single_figure_emits
      [of ?env "''data_Alejandro/Figure41a.root''" ?hs "''Figure41a''" "[]"]
    by blast
  then have run: "?run = Inr (True, snd (projr ?run))"
    by simp
  from table_value_lengths [OF run]
  obtain tbl histograms where t: "snd (projr ?run) = [] @ [tbl]"
    "opens_with ?env ''data_Alejandro/Figure41a.root'' histograms"
    "value_lengths (dependent_variables tbl) = map GetNbinsX (unique_histograms_of histograms)"
    "value_lengths (independent_variables tbl) =
       map GetNbinsX (take 1 (unique_histograms_of histograms))"
    by blast
  have "histograms = ?hs"
    using opens_with_unique [OF t(2) opens] .
  then have "value_lengths (dependent_variables tbl) = [2, 2]"
    "value_lengths (independent_variables tbl) = [2]"
    using t(3,4) kept by (simp_all add: unit_hist_def)
  with run t(1) show ?thesis
    by simp
qed




subsection \<open>get_figure_metadata\<close>





subsection \<open>process_existing_yaml_file\<close>






















end
